theory Spec2Isabelle
  imports Complex_Main "HOL-Library.AList"
begin

section \<open>Data frames\<close>

text \<open>
  \<^verbatim>\<open>modules/dataquality.py\<close> works on the pandas frame that
  \<^verbatim>\<open>pd.read_sql_query("SELECT * FROM t")\<close> returns. A frame is an index (its
  length is \<^verbatim>\<open>len(data)\<close>) and a sequence of labelled columns. A cell is
  \<open>None\<close> when it is missing (SQL NULL, pandas NaN/None) and \<open>Some v\<close> otherwise; the
  type of the values is left open, only their equality is used.
\<close>

record 'a data_frame =
  index_len :: nat
  cols :: "(string \<times> 'a option list) list"

text \<open>\<^verbatim>\<open>len(data)\<close> and \<^verbatim>\<open>data.columns\<close>.\<close>

definition len :: "'a data_frame \<Rightarrow> nat" where
  "len data = index_len data"

definition columns_of :: "'a data_frame \<Rightarrow> string list" where
  "columns_of data = map fst (cols data)"

text \<open>\<^verbatim>\<open>series.isnull().sum()\<close>: the number of missing cells of one column.\<close>

definition isnull_sum :: "'a option list \<Rightarrow> nat" where
  "isnull_sum vs = length (filter (\<lambda>v. v = None) vs)"

text \<open>
  \<^verbatim>\<open>series.nunique()\<close>: the number of distinct values of one column; pandas leaves
  missing cells out (\<^verbatim>\<open>dropna=True\<close> is the default).
\<close>

definition nunique :: "'a option list \<Rightarrow> nat" where
  "nunique vs = length (remdups (filter (\<lambda>v. v \<noteq> None) vs))"

text \<open>
  The rows of a frame: row \<open>i\<close> holds cell \<open>i\<close> of every column. Every column of a
  frame has \<open>index_len\<close> cells; a cell beyond the end of a shorter list reads as missing.
\<close>

definition cell_at :: "'a option list \<Rightarrow> nat \<Rightarrow> 'a option" where
  "cell_at vs i = (if i < length vs then vs ! i else None)"

definition frame_rows :: "'a data_frame \<Rightarrow> 'a option list list" where
  "frame_rows data = map (\<lambda>i. map (\<lambda>(c, vs). cell_at vs i) (cols data)) [0..<index_len data]"

text \<open>
  \<^verbatim>\<open>data.duplicated()\<close> marks every row that equals an earlier row (missing cells
  compare equal to each other); pandas returns an empty series for a frame with no
  rows or no columns. \<^verbatim>\<open>.sum()\<close> counts the marks.
\<close>

fun duplicated :: "'r list \<Rightarrow> 'r list \<Rightarrow> bool list" where
  "duplicated seen [] = []"
| "duplicated seen (r # rs) = (r \<in> set seen) # duplicated (r # seen) rs"

definition duplicated_sum :: "'a data_frame \<Rightarrow> nat" where
  "duplicated_sum data =
     (if index_len data = 0 \<or> cols data = [] then 0
      else length (filter (\<lambda>b. b) (duplicated [] (frame_rows data))))"

section \<open>Numbers\<close>

text \<open>
  The percentages are Python floats. They are modelled as exact rationals, so the
  rounding of the float operations is not part of the model. A quotient whose divisor is
  zero is not a number (numpy answers nan): it is \<open>None\<close>, and every operation on it
  stays \<open>None\<close>.
\<close>

type_synonym number = "rat option"

definition true_divide :: "nat \<Rightarrow> nat \<Rightarrow> number" where
  "true_divide a b = (if b = 0 then None else Some (rat_of_nat a / rat_of_nat b))"

text \<open>\<^verbatim>\<open>(a / b) * 100\<close> and \<^verbatim>\<open>(1 - (a / b)) * 100\<close>.\<close>

definition percentage :: "nat \<Rightarrow> nat \<Rightarrow> number" where
  "percentage a b = map_option (\<lambda>q. q * 100) (true_divide a b)"

definition complement_percentage :: "nat \<Rightarrow> nat \<Rightarrow> number" where
  "complement_percentage a b = map_option (\<lambda>q. (1 - q) * 100) (true_divide a b)"

section \<open>compute\_metrics\<close>

text \<open>
  The dictionaries that \<^verbatim>\<open>compute_metrics\<close> builds have fixed keys, so they are
  records. The key \<^verbatim>\<open>"error"\<close> is present only in the record of an empty table:
  \<open>error\<close> is \<open>None\<close> where the dictionary has no such key. The fields of a column's
  dictionary carry the prefix \<open>col_\<close>, since a table's dictionary uses the same keys.
  \<^verbatim>\<open>metrics["columns"]\<close> is a dictionary in insertion order: an association list
  updated with \<open>AList.update\<close>. \<^verbatim>\<open>json_friendly\<close> turns a numpy number
  into the Python number of the same value, which the model does not tell apart. The
  function's parameter \<^verbatim>\<open>table_name\<close> is called \<open>name\<close>, as
  \<open>table_name\<close> is the field.
\<close>

record column_metrics =
  col_missing_values :: nat
  col_null_values_percentage :: number
  col_completeness_percentage :: number
  col_uniqueness_percentage :: number

record metrics =
  table_name :: string
  error :: "string option"
  total_rows :: nat
  missing_values :: nat
  duplicate_rows :: nat
  null_values_percentage :: number
  completeness_percentage :: number
  uniqueness_percentage :: number
  columns :: "(string \<times> column_metrics) list"

text \<open>
  The body of the loop \<^verbatim>\<open>for column in data.columns\<close>, for one column;
  \<open>n_rows\<close> is the function's \<^verbatim>\<open>total_rows\<close>.
\<close>

definition column_entry :: "nat \<Rightarrow> 'a option list \<Rightarrow> column_metrics" where
  "column_entry n_rows vs =
     (let missing_values = isnull_sum vs;
          column_completeness = complement_percentage missing_values n_rows;
          column_uniqueness = percentage (nunique vs) n_rows;
          column_null_percentage = percentage missing_values n_rows
      in \<lparr>col_missing_values = missing_values,
          col_null_values_percentage = column_null_percentage,
          col_completeness_percentage = column_completeness,
          col_uniqueness_percentage = column_uniqueness\<rparr>)"

text \<open>
  The loop itself. It visits the labels of the frame in order and reads the column under
  each label; the labels of a frame read from a table are distinct, so the loop is over
  the labelled columns. Assigning \<^verbatim>\<open>metrics["columns"][column]\<close> updates the
  dictionary.
\<close>

fun column_loop ::
  "nat \<Rightarrow> (string \<times> 'a option list) list \<Rightarrow> (string \<times> column_metrics) list
     \<Rightarrow> (string \<times> column_metrics) list" where
  "column_loop n_rows [] acc = acc"
| "column_loop n_rows ((column, vs) # rest) acc =
     column_loop n_rows rest (AList.update column (column_entry n_rows vs) acc)"

definition compute_metrics :: "'a data_frame \<Rightarrow> string \<Rightarrow> metrics" where
  "compute_metrics data name =
     (let total_rows = len data;
          total_columns = length (columns_of data);
          total_cells = total_rows * total_columns
      in if total_rows = 0 then
           \<lparr>table_name = name,
            error = Some ''Table is empty'',
            total_rows = 0,
            missing_values = 0,
            duplicate_rows = 0,
            null_values_percentage = Some 0,
            completeness_percentage = Some 0,
            uniqueness_percentage = Some 0,
            columns = []\<rparr>
         else
           (let total_missing_values = sum_list (map (\<lambda>(c, vs). isnull_sum vs) (cols data));
                table_completeness = complement_percentage total_missing_values total_cells;
                total_unique_values = sum_list (map (\<lambda>(c, vs). nunique vs) (cols data));
                table_uniqueness = percentage total_unique_values total_cells;
                table_null_percentage = percentage total_missing_values total_cells;
                total_duplicate_rows = duplicated_sum data
            in \<lparr>table_name = name,
                error = None,
                total_rows = total_rows,
                missing_values = total_missing_values,
                duplicate_rows = total_duplicate_rows,
                null_values_percentage = table_null_percentage,
                completeness_percentage = table_completeness,
                uniqueness_percentage = table_uniqueness,
                columns = column_loop total_rows (cols data) []\<rparr>))"

text \<open>
  The number of distinct values of a column as a set: the values that occur in a cell that
  is not missing. The theorems about uniqueness are stated with it.
\<close>

definition distinct_count :: "'a option list \<Rightarrow> nat" where
  "distinct_count vs = card {x. Some x \<in> set vs}"

section \<open>get\_data\_quality\<close>

text \<open>
  The exceptions that can leave \<^verbatim>\<open>get_data_quality\<close>: iterating over
  \<^verbatim>\<open>None\<close> (TypeError), a query that the storage engine refuses, and a call of
  the summarization service that fails. The source catches none of them.
\<close>

datatype failure = TypeError | DatabaseError | APIError

text \<open>
  The storage engine, as the two queries see it: \<open>sqlite_master\<close> are the names that
  \<^verbatim>\<open>SELECT name FROM sqlite_master WHERE type='table'\<close> returns, and
  \<open>read_sql_query name\<close> is the outcome of \<^verbatim>\<open>SELECT * FROM name\<close>.
\<close>

record 'a database =
  sqlite_master :: "string list"
  read_sql_query :: "string \<Rightarrow> failure + 'a data_frame"

definition get_data_from_table :: "'a database \<Rightarrow> string \<Rightarrow> failure + 'a data_frame" where
  "get_data_from_table db name = read_sql_query db name"

text \<open>
  The summarization service: \<^verbatim>\<open>get_llm_analysis\<close> formats the metrics into a
  prompt, sends it and returns the text of the first choice (which the client library
  types as optional), or fails. The service is not a function of the prompt alone, so the
  model gives it the number of requests made before.
\<close>

type_synonym summarizer = "nat \<Rightarrow> metrics \<Rightarrow> failure + string option"

definition get_llm_analysis :: "summarizer \<Rightarrow> nat \<Rightarrow> metrics \<Rightarrow> failure + string option" where
  "get_llm_analysis llm k m = llm k m"

text \<open>
  The two shapes of a result item:
  \<^verbatim>\<open>{"table_name": t, "error": e, "llm_analysis": a}\<close> and
  \<^verbatim>\<open>{**metrics, "llm_analysis": a}\<close>; and the reading of the keys
  \<^verbatim>\<open>"table_name"\<close> and \<^verbatim>\<open>"llm_analysis"\<close>.
\<close>

datatype result_item =
  Soft_error string string "string option"
| With_analysis metrics "string option"

fun item_table_name :: "result_item \<Rightarrow> string" where
  "item_table_name (Soft_error t e a) = t"
| "item_table_name (With_analysis m a) = table_name m"

fun item_llm_analysis :: "result_item \<Rightarrow> string option" where
  "item_llm_analysis (Soft_error t e a) = a"
| "item_llm_analysis (With_analysis m a) = a"

text \<open>
  The loop \<^verbatim>\<open>for table in table_names\<close>. Its state is the list \<open>results\<close>
  and the requests sent to the summarization service so far (\<open>sent\<close>, the metrics of
  each request in order); an exception ends the loop and the function.
\<close>

fun analysis_loop ::
  "'a database \<Rightarrow> summarizer \<Rightarrow> string list \<Rightarrow> result_item list \<Rightarrow> metrics list
     \<Rightarrow> failure + (result_item list \<times> metrics list)" where
  "analysis_loop db llm [] results sent = Inr (results, sent)"
| "analysis_loop db llm (table # rest) results sent =
     (if table \<notin> set (sqlite_master db) then
        analysis_loop db llm rest (results @ [Soft_error table ''Table not found'' None]) sent
      else
        (case get_data_from_table db table of
           Inl e \<Rightarrow> Inl e
         | Inr data \<Rightarrow>
             (let m = compute_metrics data table in
              case get_llm_analysis llm (length sent) m of
                Inl e \<Rightarrow> Inl e
              | Inr llm_analysis \<Rightarrow>
                  analysis_loop db llm rest (results @ [With_analysis m llm_analysis])
                    (sent @ [m]))))"

text \<open>
  \<^verbatim>\<open>get_data_quality(table_names)\<close>. The endpoint can pass \<^verbatim>\<open>None\<close>
  for the list, so the argument is optional; iterating over \<^verbatim>\<open>None\<close> raises.
  The result is the list of items and the requests that were sent.
\<close>

definition get_data_quality ::
  "'a database \<Rightarrow> summarizer \<Rightarrow> string list option
     \<Rightarrow> failure + (result_item list \<times> metrics list)" where
  "get_data_quality db llm table_names =
     (case table_names of
        None \<Rightarrow> Inl TypeError
      | Some names \<Rightarrow> analysis_loop db llm names [] [])"

text \<open>
  The theorems about the loop are stated with the following. The two collaborators do
  their part: every requested table that is in the catalogue can be read, and the
  summarization service answers every request.
\<close>

definition tables_readable :: "'a database \<Rightarrow> string list \<Rightarrow> bool" where
  "tables_readable db names =
     (\<forall>t \<in> set names. t \<in> set (sqlite_master db) \<longrightarrow> (\<exists>data. read_sql_query db t = Inr data))"

definition summarizer_answers :: "summarizer \<Rightarrow> bool" where
  "summarizer_answers llm = (\<forall>k m. \<exists>a. llm k m = Inr a)"

text \<open>
  The item that belongs to a requested name: the soft error for a name that is not in the
  catalogue, and otherwise the metrics of the table's frame together with an answer of the
  summarization service to a request with these metrics.
\<close>

definition item_for :: "'a database \<Rightarrow> summarizer \<Rightarrow> string \<Rightarrow> result_item \<Rightarrow> bool" where
  "item_for db llm t r =
     (if t \<in> set (sqlite_master db)
      then \<exists>data a k. read_sql_query db t = Inr data
             \<and> llm k (compute_metrics data t) = Inr a
             \<and> r = With_analysis (compute_metrics data t) a
      else r = Soft_error t ''Table not found'' None)"

text \<open>The request that belongs to a table of the catalogue: the metrics of its frame.\<close>

definition request_for :: "'a database \<Rightarrow> string \<Rightarrow> metrics \<Rightarrow> bool" where
  "request_for db t m = (\<exists>data. read_sql_query db t = Inr data \<and> m = compute_metrics data t)"

text \<open>The metrics of the items that carry metrics, in order.\<close>

fun requests_of :: "result_item list \<Rightarrow> metrics list" where
  "requests_of [] = []"
| "requests_of (Soft_error t e a # rs) = requests_of rs"
| "requests_of (With_analysis m a # rs) = m # requests_of rs"

section \<open>The endpoint POST /data-quality/\<close>

text \<open>\<^verbatim>\<open>s.split(",")\<close>: the pieces between the separators, empty pieces included.\<close>

fun split :: "char \<Rightarrow> string \<Rightarrow> string list" where
  "split sep [] = [[]]"
| "split sep (c # cs) =
     (if c = sep then [] # split sep cs
      else (case split sep cs of
              [] \<Rightarrow> [[c]]
            | w # ws \<Rightarrow> (c # w) # ws))"

text \<open>
  \<^verbatim>\<open>data_quality(table_names: str = None)\<close>: an absent parameter is
  \<^verbatim>\<open>None\<close>; \<^verbatim>\<open>None\<close> and the empty string are both false in the
  condition \<^verbatim>\<open>if table_names\<close>.
\<close>

definition data_quality ::
  "'a database \<Rightarrow> summarizer \<Rightarrow> string option
     \<Rightarrow> failure + (result_item list \<times> metrics list)" where
  "data_quality db llm table_names =
     (let table_names_list =
            (case table_names of
               None \<Rightarrow> None
             | Some s \<Rightarrow> if s = [] then None else Some (split (CHR '','') s))
      in get_data_quality db llm table_names_list)"

section \<open>Key relations\<close>

text \<open>
  The responses of the key-relation routes are nested dictionaries and lists of strings;
  FastAPI returns them as JSON. A dictionary keeps its keys in insertion order.
\<close>

datatype json = JString string | JArray "json list" | JObject "(string \<times> json) list"

fun json_get :: "string \<Rightarrow> json \<Rightarrow> json option" where
  "json_get k (JObject kvs) = map_of kvs k"
| "json_get k (JString s) = None"
| "json_get k (JArray js) = None"

text \<open>
  What the SQLAlchemy inspector reports: the table names, the
  \<^verbatim>\<open>"constrained_columns"\<close> of a table's primary-key constraint, and a table's
  foreign keys.
\<close>

record foreign_key =
  constrained_columns :: "string list"
  referred_table :: string
  referred_columns :: "string list"

record inspector =
  get_table_names :: "string list"
  get_pk_constraint :: "string \<Rightarrow> string list"
  get_foreign_keys :: "string \<Rightarrow> foreign_key list"

text \<open>\<^verbatim>\<open>modules/Keys_Relation.py\<close>: the inner loop, the outer loop and the function.\<close>

definition relations_of :: "foreign_key list \<Rightarrow> json list" where
  "relations_of fks =
     map (\<lambda>fk. JObject
            [(''column'', JArray (map JString (constrained_columns fk))),
             (''references_table'', JString (referred_table fk)),
             (''references_column'', JArray (map JString (referred_columns fk)))]) fks"

fun table_loop :: "inspector \<Rightarrow> string list \<Rightarrow> (string \<times> json) list \<Rightarrow> (string \<times> json) list" where
  "table_loop insp [] key_relations = key_relations"
| "table_loop insp (table # rest) key_relations =
     (let primary_keys = get_pk_constraint insp table;
          foreign_keys = get_foreign_keys insp table;
          relations = relations_of foreign_keys
      in table_loop insp rest
           (AList.update table
              (JObject [(''primary_keys'', JArray (map JString primary_keys)),
                        (''foreign_keys'', JArray relations)])
              key_relations))"

definition get_keys_relations :: "inspector \<Rightarrow> json" where
  "get_keys_relations insp =
     (let tables = get_table_names insp;
          key_relations = table_loop insp tables []
      in JObject [(''key_relationships'', JObject key_relations)])"

text \<open>The two routes of \<^verbatim>\<open>main.py\<close>: GET /keys\_relation and GET /get\_keys\_relations.\<close>

definition keys_relations :: "inspector \<Rightarrow> json" where
  "keys_relations insp =
     (let key_relations = get_keys_relations insp
      in JObject [(''message'', JString ''Welcome to the FastAPI Service''),
                  (''key_relationships'', key_relations)])"

definition get_keys_relations_endpoint :: "inspector \<Rightarrow> json" where
  "get_keys_relations_endpoint insp = get_keys_relations insp"

section \<open>Ingestion\<close>

text \<open>
  \<^verbatim>\<open>database.py\<close>. The cells of the frame that \<^verbatim>\<open>pd.read_csv\<close> returns
  are Python scalars: integers, strings, and others (floats, booleans, and the datetimes
  that the function makes later), which the model does not look into. A missing cell is
  \<open>None\<close>, before and after \<^verbatim>\<open>df.replace({np.nan: None})\<close>.
\<close>

datatype 'o scalar = PyInt int | PyStr string | PyOther 'o

type_synonym 'o row = "(string \<times> 'o scalar option) list"

type_synonym 'o storage = "string \<Rightarrow> 'o row list"

text \<open>
  What the function takes from its libraries: the parser (the frame, or the message of the
  exception it raises), \<^verbatim>\<open>str\<close> of a scalar that is neither an integer nor a
  string, the conversion of a column to datetimes
  (\<^verbatim>\<open>pd.to_datetime(errors="coerce")\<close> and then \<^verbatim>\<open>to_pydatetime\<close>, with
  \<open>None\<close> for a cell that does not parse), and the verdict of the storage engine on a
  batch (the message of the exception when it refuses the batch).
\<close>

record 'o environment =
  read_csv :: "string \<Rightarrow> string + 'o scalar data_frame"
  str_other :: "'o \<Rightarrow> string"
  to_datetime :: "'o scalar option list \<Rightarrow> 'o option list"
  constraint_violation :: "'o storage \<Rightarrow> string \<Rightarrow> 'o row list \<Rightarrow> string option"

text \<open>\<^verbatim>\<open>str(n)\<close> for an integer: its decimal digits, with a sign when negative.\<close>

fun str_nat :: "nat \<Rightarrow> string" where
  "str_nat n =
     (if n < 10 then [''0123456789'' ! n]
      else str_nat (n div 10) @ [''0123456789'' ! (n mod 10)])"

definition str_int :: "int \<Rightarrow> string" where
  "str_int i = (if i < 0 then CHR ''-'' # str_nat (nat (- i)) else str_nat (nat i))"

text \<open>
  \<^verbatim>\<open>series.astype(str)\<close> on one cell of a column of Python objects; a missing cell
  is \<^verbatim>\<open>None\<close> by then.
\<close>

fun astype_str :: "'o environment \<Rightarrow> 'o scalar option \<Rightarrow> 'o scalar option" where
  "astype_str env None = Some (PyStr ''None'')"
| "astype_str env (Some (PyInt i)) = Some (PyStr (str_int i))"
| "astype_str env (Some (PyStr s)) = Some (PyStr s)"
| "astype_str env (Some (PyOther x)) = Some (PyStr (str_other env x))"








text \<open>
  The dictionary \<^verbatim>\<open>tables\<close> with, for each model class, the names of its columns
  (\<^verbatim>\<open>TableClass.__table__.columns\<close>), and the list \<^verbatim>\<open>id_columns\<close>.
\<close>

definition tables :: "(string \<times> string list) list" where
  "tables =
     [(''customer'', [''customer_id'', ''name'', ''email'', ''phone'', ''address'', ''created_at'']),
      (''sales'', [''sales_id'', ''customer_id'', ''product_id'', ''retailer_id'', ''quantity'',
                   ''total_price'', ''sales_date'']),
      (''orders'', [''order_id'', ''customer_id'', ''product_id'', ''retailer_id'', ''order_date'',
                    ''status'']),
      (''product'', [''product_id'', ''name'', ''category_id'', ''price'', ''stock_quantity'']),
      (''product_category'', [''category_id'', ''category_name'']),
      (''retailer'', [''retailer_id'', ''name'', ''location'']),
      (''self_position'', [''position_id'', ''product_id'', ''shelf_location'', ''height''])]"




text \<open>\<^verbatim>\<open>df[col] = f(df[col])\<close>.\<close>

definition assign_column ::
  "string \<Rightarrow> ('a option list \<Rightarrow> 'a option list) \<Rightarrow> 'a data_frame \<Rightarrow> 'a data_frame" where
  "assign_column col f df =
     df\<lparr>cols := map (\<lambda>(c, vs). if c = col then (c, f vs) else (c, vs)) (cols df)\<rparr>"

fun id_loop :: "'o environment \<Rightarrow> string list \<Rightarrow> 'o scalar data_frame \<Rightarrow> 'o scalar data_frame" where
  "id_loop env [] df = df"
| "id_loop env (col # rest) df =
     id_loop env rest
       (if col \<in> set (columns_of df) then assign_column col (map (astype_str env)) df else df)"


definition to_pydatetime :: "'o environment \<Rightarrow> 'o scalar option list \<Rightarrow> 'o scalar option list" where
  "to_pydatetime env vs = map (map_option PyOther) (to_datetime env vs)"

fun datetime_loop ::
  "'o environment \<Rightarrow> string list \<Rightarrow> 'o scalar data_frame \<Rightarrow> 'o scalar data_frame" where
  "datetime_loop env [] df = df"
| "datetime_loop env (col # rest) df =
     datetime_loop env rest
       (if col \<in> set (columns_of df) then assign_column col (to_pydatetime env) df else df)"






section \<open>Example inputs\<close>

text \<open>A table with three rows, one missing cell and a repeated value in each column.\<close>

definition example_frame :: "string data_frame" where
  "example_frame =
     \<lparr>index_len = 3,
      cols = [(''id'', [Some ''1'', Some ''2'', Some ''2'']),
              (''name'', [Some ''ann'', None, Some ''ann''])]\<rparr>"

text \<open>A catalogue with that table and an empty one, and a service that always answers.\<close>

definition example_db :: "string database" where
  "example_db =
     \<lparr>sqlite_master = [''customer'', ''orders''],
      read_sql_query =
        (\<lambda>t. if t = ''customer'' then Inr example_frame
             else if t = ''orders'' then Inr \<lparr>index_len = 0, cols = [(''order_id'', [])]\<rparr>
             else Inl DatabaseError)\<rparr>"

definition example_llm :: summarizer where
  "example_llm = (\<lambda>k m. Inr (Some (''Summary of '' @ table_name m)))"

text \<open>A catalogue with no table at all.\<close>

definition empty_inspector :: inspector where
  "empty_inspector =
     \<lparr>get_table_names = [], get_pk_constraint = (\<lambda>t. []), get_foreign_keys = (\<lambda>t. [])\<rparr>"









section \<open>Properties of compute\_metrics\<close>

subsection \<open>Distinct values and the entries of the columns\<close>

lemma nunique_card: "nunique vs = distinct_count vs"
proof -
  have "set (filter (\<lambda>v. v \<noteq> None) vs) = Some ` {x. Some x \<in> set vs}"
    by (auto simp: image_iff) 
  then have "card (set (filter (\<lambda>v. v \<noteq> None) vs)) = card {x. Some x \<in> set vs}"
    by (simp add: card_image)
  then show ?thesis
    by (simp add: nunique_def distinct_count_def length_remdups_card_conv)
qed

lemma sum_nunique_card:
  "(\<Sum>(c, vs) \<leftarrow> cs. nunique vs) = (\<Sum>(c, vs) \<leftarrow> cs. distinct_count vs)"
  by (induction cs) (auto simp: nunique_card)

lemma column_loop_lookup_acc:
  "c \<notin> fst ` set cs \<Longrightarrow> map_of (column_loop n cs acc) c = map_of acc c"
  by (induction n cs acc rule: column_loop.induct) (auto simp: update_conv')

lemma column_loop_lookup:
  "distinct (map fst cs) \<Longrightarrow> (c, vs) \<in> set cs \<Longrightarrow>
   map_of (column_loop n cs acc) c = Some (column_entry n vs)"
proof (induction n cs acc rule: column_loop.induct)
  case (1 n acc)
  then show ?case by simp
next
  case (2 n column ws rest acc)
  show ?case
  proof (cases "(c, vs) = (column, ws)")
    case True
    with 2 have "c \<notin> fst ` set rest" by auto
    then show ?thesis using True by (simp add: column_loop_lookup_acc update_conv')
  next
    case False
    with 2 show ?thesis by auto
  qed
qed

lemma example_metrics:
  "compute_metrics example_frame ''customer'' =
  \<lparr>table_name = ''customer'', error = None, total_rows = 3, missing_values = 1,
    duplicate_rows = 0, null_values_percentage = Some (50 / 3),
    completeness_percentage = Some (250 / 3),
    uniqueness_percentage = Some 50,
    columns =
      [(''id'',
        \<lparr>col_missing_values = 0, col_null_values_percentage = Some 0,
           col_completeness_percentage = Some 100,
           col_uniqueness_percentage = Some (200 / 3)\<rparr>),
       (''name'',
        \<lparr>col_missing_values = 1,
           col_null_values_percentage = Some (100 / 3),
           col_completeness_percentage = Some (200 / 3),
           col_uniqueness_percentage = Some (100 / 3)\<rparr>)]\<rparr>"
  by code_simp

lemma example_frame_facts:
  "len example_frame \<noteq> 0" "cols example_frame \<noteq> []" "distinct (columns_of example_frame)"
  by (simp_all add: example_frame_def len_def columns_of_def)

subsection \<open>The claims about the metrics\<close>

text \<open>
  C1. For a table with rows (and, as every table has, at least one column, each under a
  label of its own), the uniqueness percentage of the table is the sum over the columns
  of the number of distinct values, divided by the number of cells (rows times columns),
  times 100; and the entry of every column holds as its uniqueness percentage the
  number of distinct values of that column divided by the number of rows, times 100.
  The distinct values are those of the cells that are not missing.
\<close>

theorem uniqueness_formulas:
  assumes "len data \<noteq> 0" and "cols data \<noteq> []" and "distinct (columns_of data)"
  shows "uniqueness_percentage (compute_metrics data name) =
           Some (rat_of_nat (\<Sum>(c, vs) \<leftarrow> cols data. distinct_count vs)
                 / rat_of_nat (len data * length (columns_of data)) * 100)
         \<and> (\<forall>(c, vs) \<in> set (cols data).
               \<exists>e. map_of (columns (compute_metrics data name)) c = Some e
                 \<and> col_uniqueness_percentage e =
                     Some (rat_of_nat (distinct_count vs) / rat_of_nat (len data) * 100))"
proof (intro conjI)
  show "uniqueness_percentage (compute_metrics data name) =
           Some (rat_of_nat (\<Sum>(c, vs) \<leftarrow> cols data. distinct_count vs)
                 / rat_of_nat (len data * length (columns_of data)) * 100)"
    using assms(1,2)
    by (simp add: compute_metrics_def Let_def percentage_def true_divide_def columns_of_def
        sum_nunique_card)
next
  have "map_of (columns (compute_metrics data name)) c = Some (column_entry (len data) vs)"
    if "(c, vs) \<in> set (cols data)" for c vs
    using assms that
    by (simp add: compute_metrics_def Let_def columns_of_def column_loop_lookup)
  moreover have "col_uniqueness_percentage (column_entry (len data) vs) =
      Some (rat_of_nat (distinct_count vs) / rat_of_nat (len data) * 100)" for vs :: "'a option list"
    using assms(1)
    by (simp add: column_entry_def Let_def percentage_def true_divide_def nunique_card)
  ultimately show "\<forall>(c, vs) \<in> set (cols data).
               \<exists>e. map_of (columns (compute_metrics data name)) c = Some e
                 \<and> col_uniqueness_percentage e =
                     Some (rat_of_nat (distinct_count vs) / rat_of_nat (len data) * 100)"
    by blast
qed

theorem uniqueness_formulas_witness:
  "len example_frame \<noteq> 0 \<and> cols example_frame \<noteq> [] \<and> distinct (columns_of example_frame)
   \<and> uniqueness_percentage (compute_metrics example_frame ''customer'') = Some 50
   \<and> (\<Sum>(c, vs) \<leftarrow> cols example_frame. distinct_count vs) = 3
   \<and> len example_frame * length (columns_of example_frame) = 6
   \<and> (\<exists>e. map_of (columns (compute_metrics example_frame ''customer'')) ''id'' = Some e
          \<and> col_uniqueness_percentage e = Some (200 / 3))
   \<and> distinct_count [Some ''1'', Some ''2'', Some ''2''] = 2"
proof -
  note t = uniqueness_formulas [OF example_frame_facts, of "''customer''"]
  have m: "(''id'', [Some ''1'', Some ''2'', Some ''2'']) \<in> set (cols example_frame)"
    by (simp add: example_frame_def)
  have d: "distinct_count [Some ''1'', Some ''2'', Some ''2''] = 2"
    unfolding nunique_card[symmetric] by (simp add: nunique_def)
  have s: "(\<Sum>(c, vs) \<leftarrow> cols example_frame. distinct_count vs) = 3"
    unfolding sum_nunique_card[symmetric] by (simp add: example_frame_def nunique_def)
  have l: "len example_frame * length (columns_of example_frame) = 6"
    by (simp add: example_frame_def len_def columns_of_def)
  from t m have "\<exists>e. map_of (columns (compute_metrics example_frame ''customer'')) ''id'' = Some e
          \<and> col_uniqueness_percentage e = Some (rat_of_nat (distinct_count [Some ''1'', Some ''2'', Some ''2'']) / rat_of_nat (len example_frame) * 100)"
    by blast
  then have "\<exists>e. map_of (columns (compute_metrics example_frame ''customer'')) ''id'' = Some e
          \<and> col_uniqueness_percentage e = Some (200 / 3)"
    by (simp add: d example_frame_def len_def)
  moreover from t have "uniqueness_percentage (compute_metrics example_frame ''customer'') = Some 50"
    by (simp add: s l)
  ultimately show ?thesis using example_frame_facts d s l by blast
qed

text \<open>
  C3. For a table with zero rows \<^verbatim>\<open>compute_metrics\<close> returns the record with zero
  rows, zero missing values, zero duplicate rows, all three percentages equal to the number
  zero, no column entries and the marker \<open>Table is empty\<close>. The percentages are numbers:
  none of them is the outcome of a division by zero, whatever the number of columns.
\<close>

theorem compute_metrics_empty_table:
  assumes "len data = 0"
  shows "compute_metrics data name =
     \<lparr>table_name = name, error = Some ''Table is empty'', total_rows = 0,
      missing_values = 0, duplicate_rows = 0, null_values_percentage = Some 0,
      completeness_percentage = Some 0, uniqueness_percentage = Some 0, columns = []\<rparr>"
  using assms by (simp add: compute_metrics_def)

theorem compute_metrics_empty_table_witness:
  "len \<lparr>index_len = 0, cols = [(''id'', []), (''name'', [] :: string option list)]\<rparr> = 0
   \<and> compute_metrics
         \<lparr>index_len = 0, cols = [(''id'', []), (''name'', [] :: string option list)]\<rparr>
         ''customer'' =
     \<lparr>table_name = ''customer'', error = Some ''Table is empty'', total_rows = 0,
      missing_values = 0, duplicate_rows = 0, null_values_percentage = Some 0,
      completeness_percentage = Some 0, uniqueness_percentage = Some 0, columns = []\<rparr>"
proof -
  have h: "len \<lparr>index_len = 0, cols = [(''id'', []), (''name'', [] :: string option list)]\<rparr> = 0"
    by (simp add: len_def)
  show ?thesis using h compute_metrics_empty_table [OF h, of "''customer''"] by simp
qed

text \<open>
  C4. For a table with rows and at least one column, the completeness percentage and the
  null percentage are numbers that add up to 100: the first is
  \<open>(1 - missing / cells) * 100\<close>, the second \<open>(missing / cells) * 100\<close>.
  The numbers of the model are exact, so the sum is exactly 100.
\<close>

theorem completeness_null_complementary:
  assumes "len data \<noteq> 0" and "cols data \<noteq> []"
  shows "\<exists>c n. completeness_percentage (compute_metrics data name) = Some c
           \<and> null_values_percentage (compute_metrics data name) = Some n
           \<and> c + n = 100
           \<and> c = (1 - rat_of_nat (missing_values (compute_metrics data name))
                        / rat_of_nat (len data * length (columns_of data))) * 100
           \<and> n = rat_of_nat (missing_values (compute_metrics data name))
                        / rat_of_nat (len data * length (columns_of data)) * 100"
proof -
  let ?m = "compute_metrics data name"
  let ?q = "rat_of_nat (missing_values ?m) / rat_of_nat (len data * length (columns_of data))"
  have c: "completeness_percentage ?m = Some ((1 - ?q) * 100)"
    using assms
    by (simp add: compute_metrics_def Let_def complement_percentage_def true_divide_def
        columns_of_def)
  have n: "null_values_percentage ?m = Some (?q * 100)"
    using assms
    by (simp add: compute_metrics_def Let_def percentage_def true_divide_def columns_of_def)
  have "(1 - ?q) * 100 + ?q * 100 = 100"
    by (simp add: algebra_simps)
  with c n show ?thesis by blast
qed

theorem completeness_null_complementary_witness:
  "len example_frame \<noteq> 0 \<and> cols example_frame \<noteq> []
   \<and> completeness_percentage (compute_metrics example_frame ''customer'') = Some (250 / 3)
   \<and> null_values_percentage (compute_metrics example_frame ''customer'') = Some (50 / 3)
   \<and> (250 / 3 + 50 / 3 :: rat) = 100"
proof -
  from completeness_null_complementary [OF example_frame_facts(1,2), of "''customer''"]
  obtain c n where
    "completeness_percentage (compute_metrics example_frame ''customer'') = Some c"
    "null_values_percentage (compute_metrics example_frame ''customer'') = Some n"
    "c + n = 100"
    by blast
  then have "c = 250 / 3" "n = 50 / 3" "c + n = 100"
    by (simp_all add: example_metrics)
  then show ?thesis using example_frame_facts by (simp add: example_metrics)
qed

section \<open>Properties of get\_data\_quality\<close>

subsection \<open>The loop\<close>

lemma requests_of_append: "requests_of (xs @ ys) = requests_of xs @ requests_of ys"
  by (induction xs rule: requests_of.induct) auto

lemma analysis_loop_returns:
  assumes "tables_readable db names" and "summarizer_answers llm"
  shows "\<exists>items. analysis_loop db llm names results sent
                    = Inr (results @ items, sent @ requests_of items)
               \<and> list_all2 (item_for db llm) names items"
  using assms(1)
proof (induction names arbitrary: results sent)
  case Nil
  then show ?case by simp
next
  case (Cons t ts)
  from Cons.prems have ts: "tables_readable db ts"
    by (simp add: tables_readable_def)
  show ?case
  proof (cases "t \<in> set (sqlite_master db)")
    case False
    let ?r = "Soft_error t ''Table not found'' None"
    from Cons.IH[OF ts, of "results @ [?r]" sent]
    obtain items where
      "analysis_loop db llm ts (results @ [?r]) sent
         = Inr ((results @ [?r]) @ items, sent @ requests_of items)"
      "list_all2 (item_for db llm) ts items" by auto
    moreover have "item_for db llm t ?r"
      using False by (simp add: item_for_def)
    ultimately show ?thesis using False
      by (intro exI[of _ "?r # items"]) simp
  next
    case True
    with Cons.prems obtain data where d: "read_sql_query db t = Inr data"
      by (auto simp: tables_readable_def)
    from assms(2) obtain a where a: "llm (length sent) (compute_metrics data t) = Inr a"
      unfolding summarizer_answers_def by blast
    let ?r = "With_analysis (compute_metrics data t) a"
    from Cons.IH[OF ts, of "results @ [?r]" "sent @ [compute_metrics data t]"]
    obtain items where
      "analysis_loop db llm ts (results @ [?r]) (sent @ [compute_metrics data t])
         = Inr ((results @ [?r]) @ items, (sent @ [compute_metrics data t]) @ requests_of items)"
      "list_all2 (item_for db llm) ts items" by auto
    moreover have "item_for db llm t ?r"
      using True d a by (auto simp: item_for_def)
    ultimately show ?thesis using True d a
      by (intro exI[of _ "?r # items"])
         (simp add: get_data_from_table_def get_llm_analysis_def Let_def)
  qed
qed

lemma get_data_quality_returns:
  assumes "tables_readable db names" and "summarizer_answers llm"
  shows "\<exists>items. get_data_quality db llm (Some names) = Inr (items, requests_of items)
               \<and> list_all2 (item_for db llm) names items"
  using analysis_loop_returns [OF assms, of "[]" "[]"] by (simp add: get_data_quality_def)

lemma table_name_compute_metrics: "table_name (compute_metrics data t) = t"
  by (simp add: compute_metrics_def Let_def)

lemma item_for_table_name: "item_for db llm t r \<Longrightarrow> item_table_name r = t"
  by (auto simp: item_for_def table_name_compute_metrics split: if_splits)

lemma list_all2_table_names:
  "list_all2 (item_for db llm) names items \<Longrightarrow> map item_table_name items = names"
  by (induction rule: list_all2_induct) (auto simp: item_for_table_name)

lemma list_all2_requests:
  "list_all2 (item_for db llm) names items \<Longrightarrow>
   list_all2 (request_for db) (filter (\<lambda>t. t \<in> set (sqlite_master db)) names) (requests_of items)"
  by (induction rule: list_all2_induct) (auto simp: item_for_def request_for_def split: if_splits)

lemma example_db_readable: "tables_readable example_db names"
  by (simp add: tables_readable_def example_db_def)

lemma example_llm_answers: "summarizer_answers example_llm"
  by (simp add: summarizer_answers_def example_llm_def)

subsection \<open>The claims about the batch\<close>

text \<open>
  C2. Take a request with at least one name that is not in the catalogue and at least one
  that is, and let the collaborators do their part (the tables of the catalogue that are
  requested can be read, the summarization service answers). Then
  \<^verbatim>\<open>get_data_quality\<close> returns a list of items, one for each name in order:
  for a name that is not in the catalogue the item
  \<^verbatim>\<open>{table_name, error: "Table not found", llm_analysis: None}\<close>, for a name
  that is in it the metrics of the table with the answer of the service.
\<close>

theorem unknown_names_do_not_abort:
  assumes "\<exists>t \<in> set names. t \<notin> set (sqlite_master db)"
    and "\<exists>t \<in> set names. t \<in> set (sqlite_master db)"
    and "tables_readable db names" and "summarizer_answers llm"
  shows "\<exists>items sent. get_data_quality db llm (Some names) = Inr (items, sent)
           \<and> list_all2 (item_for db llm) names items"
  using get_data_quality_returns [OF assms(3,4)] by blast

theorem unknown_names_do_not_abort_witness:
  "(\<exists>t \<in> set [''customer'', ''nope'']. t \<notin> set (sqlite_master example_db))
   \<and> (\<exists>t \<in> set [''customer'', ''nope'']. t \<in> set (sqlite_master example_db))
   \<and> tables_readable example_db [''customer'', ''nope'']
   \<and> summarizer_answers example_llm
   \<and> (\<exists>items sent.
         get_data_quality example_db example_llm (Some [''customer'', ''nope'']) = Inr (items, sent)
         \<and> list_all2 (item_for example_db example_llm) [''customer'', ''nope''] items)
   \<and> get_data_quality example_db example_llm (Some [''customer'', ''nope'']) =
       Inr ([With_analysis (compute_metrics example_frame ''customer'') (Some ''Summary of customer''),
             Soft_error ''nope'' ''Table not found'' None],
            [compute_metrics example_frame ''customer''])
   \<and> item_for example_db example_llm ''nope'' (Soft_error ''nope'' ''Table not found'' None)
   \<and> item_for example_db example_llm ''customer''
        (With_analysis (compute_metrics example_frame ''customer'') (Some ''Summary of customer''))"
proof -
  have h1: "\<exists>t \<in> set [''customer'', ''nope'']. t \<notin> set (sqlite_master example_db)"
    by (simp add: example_db_def)
  have h2: "\<exists>t \<in> set [''customer'', ''nope'']. t \<in> set (sqlite_master example_db)"
    by (simp add: example_db_def)
  have i1: "item_for example_db example_llm ''nope'' (Soft_error ''nope'' ''Table not found'' None)"
    by (simp add: item_for_def example_db_def)
  have i2: "item_for example_db example_llm ''customer''
        (With_analysis (compute_metrics example_frame ''customer'') (Some ''Summary of customer''))"
    by (simp add: item_for_def example_db_def example_llm_def table_name_compute_metrics)
  have run: "get_data_quality example_db example_llm (Some [''customer'', ''nope'']) =
       Inr ([With_analysis (compute_metrics example_frame ''customer'') (Some ''Summary of customer''),
             Soft_error ''nope'' ''Table not found'' None],
            [compute_metrics example_frame ''customer''])"
    by (simp add: get_data_quality_def example_db_def example_llm_def get_data_from_table_def
        get_llm_analysis_def Let_def table_name_compute_metrics)
  show ?thesis
    using unknown_names_do_not_abort [OF h1 h2 example_db_readable example_llm_answers]
      h1 h2 i1 i2 run example_db_readable example_llm_answers
    by blast
qed

text \<open>
  C10. When the collaborators do their part, \<^verbatim>\<open>get_data_quality\<close> returns
  exactly one item for each requested name, in the order of the request, and the
  \<^verbatim>\<open>table_name\<close> of each item is the requested name.
\<close>

theorem one_item_per_name:
  assumes "tables_readable db names" and "summarizer_answers llm"
  shows "\<exists>items sent. get_data_quality db llm (Some names) = Inr (items, sent)
           \<and> length items = length names
           \<and> map item_table_name items = names"
proof -
  from get_data_quality_returns [OF assms] obtain items where
    r: "get_data_quality db llm (Some names) = Inr (items, requests_of items)"
    and a: "list_all2 (item_for db llm) names items" by blast
  from a have "length items = length names" by (simp add: list_all2_lengthD)
  with r list_all2_table_names [OF a] show ?thesis by blast
qed

theorem one_item_per_name_witness:
  "tables_readable example_db [''orders'', ''nope'', ''customer'', ''orders'']
   \<and> summarizer_answers example_llm
   \<and> (\<exists>items sent.
        get_data_quality example_db example_llm (Some [''orders'', ''nope'', ''customer'', ''orders''])
          = Inr (items, sent)
        \<and> length items = 4
        \<and> map item_table_name items = [''orders'', ''nope'', ''customer'', ''orders''])"
  using one_item_per_name [OF example_db_readable example_llm_answers,
      of "[''orders'', ''nope'', ''customer'', ''orders'']"]
    example_db_readable example_llm_answers
  by (simp add: eval_nat_numeral)

text \<open>
  C5, as the specification states it, fails. The table \<open>orders\<close> of the example has
  no rows, so its metrics carry the marker \<open>Table is empty\<close>; the request with these
  metrics is sent all the same, and the answer is the item's \<^verbatim>\<open>llm_analysis\<close>.
\<close>

theorem summarizer_called_for_empty_table:
  "get_data_quality example_db example_llm (Some [''orders'']) =
     Inr ([With_analysis
             \<lparr>table_name = ''orders'', error = Some ''Table is empty'', total_rows = 0,
              missing_values = 0, duplicate_rows = 0, null_values_percentage = Some 0,
              completeness_percentage = Some 0, uniqueness_percentage = Some 0, columns = []\<rparr>
             (Some ''Summary of orders'')],
          [\<lparr>table_name = ''orders'', error = Some ''Table is empty'', total_rows = 0,
              missing_values = 0, duplicate_rows = 0, null_values_percentage = Some 0,
              completeness_percentage = Some 0, uniqueness_percentage = Some 0, columns = []\<rparr>])"
  by (simp add: get_data_quality_def example_db_def example_llm_def get_data_from_table_def
      get_llm_analysis_def compute_metrics_def len_def Let_def)

text \<open>
  C5, as amended. When the collaborators do their part, one request is sent for every
  requested name that is in the catalogue, in order, with the metrics of the table,
  whether or not they carry an error marker, and the item carries an answer of the
  service to a request with its metrics; no request is sent for a name that is not in the
  catalogue, and the item of such a name has no \<^verbatim>\<open>llm_analysis\<close>.
\<close>

theorem summarizer_called_for_every_table:
  assumes "tables_readable db names" and "summarizer_answers llm"
  shows "\<exists>items sent. get_data_quality db llm (Some names) = Inr (items, sent)
           \<and> sent = requests_of items
           \<and> list_all2 (request_for db) (filter (\<lambda>t. t \<in> set (sqlite_master db)) names) sent
           \<and> list_all2 (\<lambda>t r. if t \<in> set (sqlite_master db)
                                then \<exists>m a k. r = With_analysis m a \<and> request_for db t m
                                             \<and> llm k m = Inr a
                                else item_llm_analysis r = None) names items"
proof -
  from get_data_quality_returns [OF assms] obtain items where
    r: "get_data_quality db llm (Some names) = Inr (items, requests_of items)"
    and a: "list_all2 (item_for db llm) names items" by blast
  have "list_all2 (\<lambda>t r. if t \<in> set (sqlite_master db)
                                then \<exists>m a k. r = With_analysis m a \<and> request_for db t m
                                             \<and> llm k m = Inr a
                                else item_llm_analysis r = None) names items"
    using a by (rule list_all2_mono) (auto simp: item_for_def request_for_def split: if_splits)
  with r list_all2_requests [OF a] show ?thesis by blast
qed

theorem summarizer_called_for_every_table_witness:
  "tables_readable example_db [''orders'', ''nope'']
   \<and> summarizer_answers example_llm
   \<and> (\<exists>items sent.
         get_data_quality example_db example_llm (Some [''orders'', ''nope'']) = Inr (items, sent)
         \<and> sent = requests_of items
         \<and> list_all2 (request_for example_db) [''orders''] sent
         \<and> list_all2 (\<lambda>t r. if t \<in> set (sqlite_master example_db)
                              then \<exists>m a k. r = With_analysis m a \<and> request_for example_db t m
                                           \<and> example_llm k m = Inr a
                              else item_llm_analysis r = None) [''orders'', ''nope''] items)"
proof -
  have f: "filter (\<lambda>t. t \<in> set (sqlite_master example_db)) [''orders'', ''nope''] = [''orders'']"
    by (simp add: example_db_def)
  show ?thesis
    using summarizer_called_for_every_table [OF example_db_readable example_llm_answers,
        of "[''orders'', ''nope'']"]
      example_db_readable example_llm_answers
    unfolding f by blast
qed

text \<open>
  C6. The specification says that an empty or absent \<^verbatim>\<open>table_names\<close> makes
  the endpoint analyse every table. The endpoint passes \<^verbatim>\<open>None\<close> to
  \<^verbatim>\<open>get_data_quality\<close> in both cases, and the loop over \<^verbatim>\<open>None\<close>
  raises TypeError: no item is returned.
\<close>

theorem data_quality_without_names:
  "data_quality db llm None = Inl TypeError \<and> data_quality db llm (Some '''') = Inl TypeError"
  by (simp add: data_quality_def get_data_quality_def)


section \<open>Properties of the key-relation routes\<close>

text \<open>
  C7, as the specification states it, fails: already for a catalogue with no table the
  two routes return different responses.
\<close>

theorem keys_relation_routes_differ_example:
  "get_keys_relations_endpoint empty_inspector = JObject [(''key_relationships'', JObject [])]
   \<and> json_get ''message'' (keys_relations empty_inspector) =
       Some (JString ''Welcome to the FastAPI Service'')
   \<and> json_get ''message'' (get_keys_relations_endpoint empty_inspector) = None
   \<and> keys_relations empty_inspector \<noteq> get_keys_relations_endpoint empty_inspector"
  by (simp add: keys_relations_def get_keys_relations_endpoint_def get_keys_relations_def
      empty_inspector_def)

text \<open>
  C7, as amended. For every catalogue, GET /get\_keys\_relations returns the dictionary
  with the single key \<^verbatim>\<open>key_relationships\<close>, which holds the report of
  the tables; the response of GET /keys\_relation has a key \<^verbatim>\<open>message\<close> with
  the text \<open>Welcome to the FastAPI Service\<close> beside its key
  \<^verbatim>\<open>key_relationships\<close>, so the two responses are never equal.
\<close>

theorem keys_relation_routes:
  "get_keys_relations_endpoint insp =
     JObject [(''key_relationships'', JObject (table_loop insp (get_table_names insp) []))]
   \<and> json_get ''message'' (get_keys_relations_endpoint insp) = None
   \<and> json_get ''message'' (keys_relations insp) = Some (JString ''Welcome to the FastAPI Service'')
   \<and> json_get ''key_relationships'' (keys_relations insp) \<noteq> None
   \<and> keys_relations insp \<noteq> get_keys_relations_endpoint insp"
  by (simp add: keys_relations_def get_keys_relations_endpoint_def get_keys_relations_def)


section \<open>Properties of upload\_csv\<close>

subsection \<open>The steps on the frame\<close>

lemma columns_of_assign [simp]: "columns_of (assign_column col f df) = columns_of df"
  by (auto simp: columns_of_def assign_column_def)

lemma index_len_assign [simp]: "index_len (assign_column col f df) = index_len df"
  by (simp add: assign_column_def)



lemma index_len_id_loop [simp]: "index_len (id_loop env ids df) = index_len df"
  by (induction ids arbitrary: df) auto



lemma index_len_datetime_loop [simp]: "index_len (datetime_loop env ds df) = index_len df"
  by (induction ds arbitrary: df) auto


































subsection \<open>The claims about the stored records\<close>







end
